theory Spec2Isabelle
  imports Complex_Main
begin

section \<open>The hybrid movie recommender of \<open>movie_recommendation.ipynb\<close>\<close>

text \<open>
  The notebook keeps its data in module-level variables and defines two functions over
  them, \<open>get_hybrid_recommendations\<close> and \<open>evaluate_recommendations\<close>. The variables
  become the fields of the record \<open>env\<close>; the two functions take it as their first
  argument. Scores are Python and numpy floats; they are modelled as real numbers, so
  every statement below is about the exact arithmetic and about which index each number
  is read at, never about rounding.
\<close>

subsection \<open>Data\<close>

text \<open>
  A row of \<open>movies.csv\<close>, and a row of \<open>ratings.csv\<close> without its timestamp, which the
  notebook never reads.
\<close>

record movie_row =
  movieId :: int
  title :: string
  genres :: string

record rating_row =
  userId :: int
  rated_movieId :: int
  rating :: real

text \<open>
  \<open>movies_df\<close> has the default index \<open>0, 1, ...\<close> of \<open>read_csv\<close>, so a row's label is its
  position in the list. \<open>content_sim_matrix\<close> is the square array that
  \<open>cosine_similarity\<close> returned for the table: entry \<open>(i, j)\<close> for \<open>i, j\<close> below the number
  of rows. \<open>cf_model\<close> is the trained network as \<open>predict\<close> uses it: the predicted rating
  for an encoded user and an encoded movie.
\<close>

record env =
  movies_df :: "movie_row list"
  ratings_df :: "rating_row list"
  content_sim_matrix :: "nat \<Rightarrow> nat \<Rightarrow> real"
  cf_model :: "nat \<Rightarrow> nat \<Rightarrow> real"

datatype py_error = IndexError | KeyError | ValueError

text \<open>What the function prints: the two f-strings of the source.\<close>

datatype message = Warning_not_found string | An_error_occurred py_error

record outcome =
  printed :: "message list"
  returned :: "string list"

subsection \<open>The label encoders and the training arrays\<close>

text \<open>\<open>np.unique\<close>: the sorted distinct values.\<close>

definition np_unique :: "'a::linorder list \<Rightarrow> 'a list" where
  "np_unique xs = sort (remdups xs)"

fun index_of :: "'a \<Rightarrow> 'a list \<Rightarrow> nat" where
  "index_of v [] = 0"
| "index_of v (x # xs) = (if x = v then 0 else Suc (index_of v xs))"

text \<open>\<open>LabelEncoder.fit_transform\<close>: each value's position among the sorted distinct values.\<close>

definition fit_transform :: "int list \<Rightarrow> nat list" where
  "fit_transform ys = map (\<lambda>v. index_of v (np_unique ys)) ys"

definition X_users :: "env \<Rightarrow> nat list" where
  "X_users e = fit_transform (map userId (ratings_df e))"

definition X_movies :: "env \<Rightarrow> nat list" where
  "X_movies e = fit_transform (map rated_movieId (ratings_df e))"

definition num_users :: "env \<Rightarrow> nat" where
  "num_users e = length (np_unique (X_users e))"

definition num_movies :: "env \<Rightarrow> nat" where
  "num_movies e = length (np_unique (X_movies e))"

subsection \<open>Title lookup\<close>

text \<open>
  \<open>movies_df[movies_df['title'] == movie].index\<close>: the labels of the rows with that title,
  in table order.
\<close>

definition title_index :: "movie_row list \<Rightarrow> string \<Rightarrow> nat list" where
  "title_index df movie = filter (\<lambda>i. title (df ! i) = movie) [0..<length df]"

text \<open>
  The first loop of the function. \<open>Inl movie\<close> is the early \<open>return []\<close> after the warning
  for \<open>movie\<close>.
\<close>

fun find_indices :: "movie_row list \<Rightarrow> string list \<Rightarrow> nat list \<Rightarrow> string + nat list" where
  "find_indices df [] input_movie_indices = Inr input_movie_indices"
| "find_indices df (movie # rest) input_movie_indices =
     (case title_index df movie of
        [] \<Rightarrow> Inl movie
      | i # _ \<Rightarrow> find_indices df rest (input_movie_indices @ [i]))"

subsection \<open>Scores\<close>

text \<open>\<open>content_sim_matrix[idx]\<close>: one row of the matrix.\<close>

definition content_row :: "env \<Rightarrow> nat \<Rightarrow> real list" where
  "content_row e idx = map (content_sim_matrix e idx) [0..<length (movies_df e)]"

text \<open>\<open>np.mean(rows, axis=0)\<close> for a non-empty list of rows of one length.\<close>

definition mean_rows :: "env \<Rightarrow> nat list \<Rightarrow> real list" where
  "mean_rows e input_movie_indices =
     map (\<lambda>j. sum_list (map (\<lambda>idx. content_row e idx ! j) input_movie_indices)
               / real (length input_movie_indices))
       [0..<length (movies_df e)]"

text \<open>
  Adding two one-dimensional arrays: numpy adds arrays of one length element by element,
  stretches an array of length one, and raises \<open>ValueError\<close> otherwise.
\<close>

definition np_add :: "real list \<Rightarrow> real list \<Rightarrow> py_error + real list" where
  "np_add a b =
     (if length a = length b then Inr (map2 (+) a b)
      else if length a = 1 then Inr (map (\<lambda>y. hd a + y) b)
      else if length b = 1 then Inr (map (\<lambda>x. x + hd b) a)
      else Inl ValueError)"

text \<open>
  Lines 482 to 497. With no seed, \<open>np.mean\<close> of the empty list is the scalar \<open>nan\<close> and the
  slice of it raises \<open>IndexError\<close>; with no rating, \<open>X_users[0]\<close> raises \<open>IndexError\<close>.
\<close>

definition hybrid_scores :: "env \<Rightarrow> nat list \<Rightarrow> py_error + real list" where
  "hybrid_scores e input_movie_indices =
     (if X_users e = [] then Inl IndexError
      else if input_movie_indices = [] then Inl IndexError
      else
        (let sample_user_id = hd (X_users e);
             all_movie_ids = [0..<num_movies e];
             content_scores = take (length all_movie_ids) (mean_rows e input_movie_indices);
             cf_ratings = map (cf_model e sample_user_id) all_movie_ids
         in np_add (map (\<lambda>x. 0.5 * x) content_scores) (map (\<lambda>x. 0.5 * x) cf_ratings)))"

subsection \<open>Ranking\<close>

text \<open>
  \<open>np.argsort\<close>: the indices that sort the array in ascending order. numpy promises no
  order among equal values for its default kind; the model takes the stable order, which
  is what numpy's insertion sort gives on short arrays.
\<close>

definition np_argsort :: "real list \<Rightarrow> nat list" where
  "np_argsort xs = sort_key (\<lambda>i. xs ! i) [0..<length xs]"

text \<open>
  The second loop. \<open>movies_df.loc[idx, 'title']\<close> raises \<open>KeyError\<close> for a label that is not
  in the table. The loop has no \<open>break\<close>: it reads the title at every index.
\<close>

fun collect :: "movie_row list \<Rightarrow> string list \<Rightarrow> int \<Rightarrow> nat list \<Rightarrow> string list
    \<Rightarrow> py_error + string list" where
  "collect df input_movies top_n [] recommendations = Inr recommendations"
| "collect df input_movies top_n (idx # rest) recommendations =
     (if idx < length df then
        (let rec_movie_title = title (df ! idx) in
           if rec_movie_title \<notin> set input_movies \<and> int (length recommendations) < top_n
           then collect df input_movies top_n rest (recommendations @ [rec_movie_title])
           else collect df input_movies top_n rest recommendations)
      else Inl KeyError)"

text \<open>The body of the \<open>try\<close>: \<open>Inl\<close> is an exception that leaves it.\<close>

definition try_body :: "env \<Rightarrow> string list \<Rightarrow> int \<Rightarrow> py_error + outcome" where
  "try_body e input_movies top_n =
     (case find_indices (movies_df e) input_movies [] of
        Inl movie \<Rightarrow> Inr \<lparr>printed = [Warning_not_found movie], returned = []\<rparr>
      | Inr input_movie_indices \<Rightarrow>
          (case hybrid_scores e input_movie_indices of
             Inl err \<Rightarrow> Inl err
           | Inr scores \<Rightarrow>
               (let top_indices = rev (np_argsort scores) in
                  case collect (movies_df e) input_movies top_n top_indices [] of
                    Inl err \<Rightarrow> Inl err
                  | Inr recommendations \<Rightarrow>
                      Inr \<lparr>printed = [], returned = recommendations\<rparr>)))"

text \<open>The function: the \<open>try\<close> with its \<open>except Exception\<close> handler.\<close>

definition get_hybrid_recommendations :: "env \<Rightarrow> string list \<Rightarrow> int \<Rightarrow> outcome" where
  "get_hybrid_recommendations e input_movies top_n =
     (case try_body e input_movies top_n of
        Inr out \<Rightarrow> out
      | Inl err \<Rightarrow> \<lparr>printed = [An_error_occurred err], returned = []\<rparr>)"

subsection \<open>The evaluator\<close>

text \<open>\<open>str.split\<close> with a one-character separator.\<close>

fun split_str :: "char \<Rightarrow> string \<Rightarrow> string list" where
  "split_str sep [] = [[]]"
| "split_str sep (c # cs) =
     (if c = sep then [] # split_str sep cs
      else (case split_str sep cs of
              [] \<Rightarrow> [[c]]
            | w # ws \<Rightarrow> (c # w) # ws))"

text \<open>
  \<open>movies_df[movies_df['title'] == t]['genres'].values[0]\<close>: the genres of the first row
  with the title; \<open>IndexError\<close> when no row has it.
\<close>

definition genres_of :: "movie_row list \<Rightarrow> string \<Rightarrow> py_error + string" where
  "genres_of df t =
     (case title_index df t of
        [] \<Rightarrow> Inl IndexError
      | i # _ \<Rightarrow> Inr (genres (df ! i)))"

fun input_genres_loop :: "movie_row list \<Rightarrow> string list \<Rightarrow> string set \<Rightarrow> py_error + string set" where
  "input_genres_loop df [] input_genres = Inr input_genres"
| "input_genres_loop df (movie # rest) input_genres =
     (case genres_of df movie of
        Inl err \<Rightarrow> Inl err
      | Inr genre \<Rightarrow> input_genres_loop df rest (input_genres \<union> set (split_str CHR ''|'' genre)))"

text \<open>The \<open>sum\<close> over the recommendations of the \<open>any\<close> over a recommendation's genres.\<close>

fun genre_matches_sum :: "movie_row list \<Rightarrow> string set \<Rightarrow> string list \<Rightarrow> py_error + nat" where
  "genre_matches_sum df input_genres [] = Inr 0"
| "genre_matches_sum df input_genres (rec # rest) =
     (case genres_of df rec of
        Inl err \<Rightarrow> Inl err
      | Inr g \<Rightarrow>
          (case genre_matches_sum df input_genres rest of
             Inl err \<Rightarrow> Inl err
           | Inr k \<Rightarrow>
               Inr ((if (\<exists>genre \<in> set (split_str CHR ''|'' g). genre \<in> input_genres) then 1 else 0) + k)))"

record metrics =
  recommendations :: "string list"
  genre_match_rate :: real
  total_recommendations :: nat

text \<open>
  The evaluator has no handler of its own: \<open>Inl\<close> is an exception that reaches the caller.
  The first component is what the call of the ranker printed.
\<close>

definition evaluate_recommendations :: "env \<Rightarrow> string list \<Rightarrow> int \<Rightarrow> message list \<times> (py_error + metrics)" where
  "evaluate_recommendations e test_movies top_n =
     (let out = get_hybrid_recommendations e test_movies top_n;
          recs = returned out
      in (printed out,
          (case input_genres_loop (movies_df e) test_movies {} of
             Inl err \<Rightarrow> Inl err
           | Inr input_genres \<Rightarrow>
               (case genre_matches_sum (movies_df e) input_genres recs of
                  Inl err \<Rightarrow> Inl err
                | Inr genre_matches \<Rightarrow>
                    Inr \<lparr>recommendations = recs,
                         genre_match_rate =
                           (if recs \<noteq> [] then (real genre_matches / real (length recs)) * 100 else 0),
                         total_recommendations = length recs\<rparr>))))"

subsection \<open>Notions used to state the properties\<close>

text \<open>
  The genre tags of the movie a title names: the tags of the first row with the title,
  which is the row both functions resolve a title to.
\<close>

definition genre_tags :: "movie_row list \<Rightarrow> string \<Rightarrow> string set" where
  "genre_tags df t =
     (case title_index df t of
        [] \<Rightarrow> {}
      | i # _ \<Rightarrow> set (split_str CHR ''|'' (genres (df ! i))))"

definition shares_genre :: "movie_row list \<Rightarrow> string list \<Rightarrow> string \<Rightarrow> bool" where
  "shares_genre df seeds rec = (genre_tags df rec \<inter> (\<Union>s \<in> set seeds. genre_tags df s) \<noteq> {})"

subsection \<open>Two small tables\<close>

text \<open>
  Four movies of which the second has no rating, so that the encoder maps the rated
  movies 1, 3 and 4 to 0, 1 and 2. The network's prediction for encoded movie \<open>m\<close> is
  \<open>m + 1\<close>, and a movie is similar only to itself.
\<close>

definition env_unrated :: env where
  "env_unrated =
     \<lparr>movies_df =
        [\<lparr>movieId = 1, title = ''A'', genres = ''Comedy''\<rparr>,
         \<lparr>movieId = 2, title = ''B'', genres = ''Drama''\<rparr>,
         \<lparr>movieId = 3, title = ''C'', genres = ''Comedy|Drama''\<rparr>,
         \<lparr>movieId = 4, title = ''D'', genres = ''Action''\<rparr>],
      ratings_df =
        [\<lparr>userId = 7, rated_movieId = 1, rating = 4\<rparr>,
         \<lparr>userId = 7, rated_movieId = 3, rating = 5\<rparr>,
         \<lparr>userId = 9, rated_movieId = 4, rating = 3\<rparr>],
      content_sim_matrix = (\<lambda>i j. if i = j then 1 else 0),
      cf_model = (\<lambda>u m. real m + 1)\<rparr>"

text \<open>
  Three rated movies; the seed \<open>S\<close> is as similar to \<open>A\<close> as to \<open>B\<close>, and the network
  predicts 3 for every movie.
\<close>

definition env_ties :: env where
  "env_ties =
     \<lparr>movies_df =
        [\<lparr>movieId = 1, title = ''S'', genres = ''Comedy''\<rparr>,
         \<lparr>movieId = 2, title = ''A'', genres = ''Comedy''\<rparr>,
         \<lparr>movieId = 3, title = ''B'', genres = ''Drama''\<rparr>],
      ratings_df =
        [\<lparr>userId = 1, rated_movieId = 1, rating = 4\<rparr>,
         \<lparr>userId = 1, rated_movieId = 2, rating = 3\<rparr>,
         \<lparr>userId = 1, rated_movieId = 3, rating = 3\<rparr>],
      content_sim_matrix = (\<lambda>i j. if i = j then 1 else 1 / 2),
      cf_model = (\<lambda>u m. 3)\<rparr>"

subsection \<open>The content scorer\<close>


text \<open>
  Modelled from the spec: the notebook builds the matrix with two calls of scikit-learn,
  \<open>TfidfVectorizer(stop_words='english').fit_transform\<close> and \<open>cosine_similarity\<close>, whose
  code is not in the repository. The spec (4.1) says what they compute: the cosine
  similarity of the TF-IDF weighted term vectors of the texts, after the stop words are
  removed. The definitions from here to \<open>build_content_sim_matrix\<close> write that out with the
  library's defaults. Texts are taken to be ASCII.
\<close>
















lemmas env_eval =
  get_hybrid_recommendations_def try_body_def title_index_def np_argsort_def
  hybrid_scores_def X_users_def X_movies_def fit_transform_def np_unique_def num_movies_def
  mean_rows_def content_row_def np_add_def upt_rec

section \<open>Lemmas about the model\<close>

lemma title_index_Nil: "title_index df t = [] \<longleftrightarrow> t \<notin> title ` set df"
proof
  assume h: "title_index df t = []"
  show "t \<notin> title ` set df"
  proof
    assume "t \<in> title ` set df"
    then obtain r where "r \<in> set df" "title r = t" by auto
    then obtain i where "i < length df" "df ! i = r" by (auto simp: in_set_conv_nth)
    with \<open>title r = t\<close> have "i \<in> set (title_index df t)" by (simp add: title_index_def)
    with h show False by simp
  qed
next
  assume h: "t \<notin> title ` set df"
  have "\<And>i. i < length df \<Longrightarrow> title (df ! i) \<noteq> t"
    using h nth_mem by fastforce
  then show "title_index df t = []" by (simp add: title_index_def filter_empty_conv)
qed

lemma title_index_Cons:
  "title_index df t = i # is \<Longrightarrow> i < length df \<and> title (df ! i) = t"
proof -
  assume h: "title_index df t = i # is"
  have "i \<in> set (title_index df t)" by (simp add: h)
  then show ?thesis by (simp add: title_index_def)
qed

lemma find_indices_absent:
  "\<exists>t \<in> set seeds. t \<notin> title ` set df \<Longrightarrow>
   \<exists>m \<in> set seeds. m \<notin> title ` set df \<and> find_indices df seeds acc = Inl m"
proof (induction seeds arbitrary: acc)
  case Nil
  then show ?case by simp
next
  case (Cons s seeds)
  show ?case
  proof (cases "title_index df s")
    case Nil
    then show ?thesis by (simp add: title_index_Nil [symmetric])
  next
    case (Cons i rest)
    then have "s \<in> title ` set df" using title_index_Nil [of df s] by auto
    with Cons.prems have "\<exists>t \<in> set seeds. t \<notin> title ` set df" by auto
    from Cons.IH [OF this, of "acc @ [i]"] Cons show ?thesis by auto
  qed
qed

lemma find_indices_present:
  "\<forall>t \<in> set seeds. t \<in> title ` set df \<Longrightarrow>
   \<exists>idxs. find_indices df seeds acc = Inr idxs \<and> length idxs = length acc + length seeds"
proof (induction seeds arbitrary: acc)
  case Nil
  then show ?case by simp
next
  case (Cons s seeds)
  then have "title_index df s \<noteq> []" by (simp add: title_index_Nil)
  then obtain i rest where h: "title_index df s = i # rest" by (cases "title_index df s") auto
  from Cons.prems have "\<forall>t \<in> set seeds. t \<in> title ` set df" by simp
  from Cons.IH [OF this, of "acc @ [i]"] h show ?case by auto
qed

lemma find_indices_Inr:
  "find_indices df seeds acc = Inr idxs \<Longrightarrow> \<forall>t \<in> set seeds. t \<in> title ` set df"
  using find_indices_absent [of seeds df acc] by auto

lemma collect_KeyError:
  "\<exists>i \<in> set idxs. \<not> i < length df \<Longrightarrow> collect df inp N idxs acc = Inl KeyError"
  by (induction idxs arbitrary: acc) (auto simp: Let_def)

lemma collect_eq:
  "\<forall>i \<in> set idxs. i < length df \<Longrightarrow>
   collect df inp N idxs acc =
     Inr (acc @ take (nat (N - int (length acc)))
            (map (\<lambda>i. title (df ! i)) (filter (\<lambda>i. title (df ! i) \<notin> set inp) idxs)))"
proof (induction idxs arbitrary: acc)
  case Nil
  then show ?case by simp
next
  case (Cons i idxs)
  then have IH: "\<And>acc. collect df inp N idxs acc =
     Inr (acc @ take (nat (N - int (length acc)))
            (map (\<lambda>i. title (df ! i)) (filter (\<lambda>i. title (df ! i) \<notin> set inp) idxs)))"
    and i: "i < length df" by simp_all
  show ?case
  proof (cases "title (df ! i) \<notin> set inp \<and> int (length acc) < N")
    case True
    then have "nat (N - int (length acc)) = Suc (nat (N - int (length (acc @ [title (df ! i)]))))"
      by (simp add: Suc_nat_eq_nat_zadd1)
    with True i show ?thesis by (simp add: IH)
  next
    case False
    then show ?thesis using i by (auto simp: IH)
  qed
qed


lemma np_add_length: "np_add a b = Inr c \<Longrightarrow> length c \<le> max (length a) (length b)"
  by (auto simp: np_add_def split: if_splits)

lemma hybrid_scores_Inr:
  assumes "hybrid_scores e idxs = Inr hs"
  shows "X_users e \<noteq> [] \<and> idxs \<noteq> [] \<and>
     np_add (map (\<lambda>x. 0.5 * x) (take (num_movies e) (mean_rows e idxs)))
            (map (\<lambda>x. 0.5 * x) (map (cf_model e (hd (X_users e))) [0..<num_movies e])) = Inr hs"
proof -
  have a: "X_users e \<noteq> []" using assms unfolding hybrid_scores_def by (cases "X_users e = []") simp_all
  have b: "idxs \<noteq> []" using assms a unfolding hybrid_scores_def by (cases "idxs = []") simp_all
  have "hybrid_scores e idxs =
     np_add (map (\<lambda>x. 0.5 * x) (take (num_movies e) (mean_rows e idxs)))
            (map (\<lambda>x. 0.5 * x) (map (cf_model e (hd (X_users e))) [0..<num_movies e]))"
    by (simp only: hybrid_scores_def Let_def a b if_False length_upt diff_zero)
  with assms a b show ?thesis by (simp only: simp_thms)
qed

lemma hybrid_scores_length: "hybrid_scores e idxs = Inr hs \<Longrightarrow> length hs \<le> num_movies e"
proof -
  assume h: "hybrid_scores e idxs = Inr hs"
  from np_add_length [OF hybrid_scores_Inr [OF h, THEN conjunct2, THEN conjunct2]]
  show ?thesis by simp
qed

lemma set_np_argsort: "set (np_argsort xs) = {..<length xs}"
  by (auto simp: np_argsort_def)

lemma distinct_np_argsort: "distinct (np_argsort xs)"
  by (simp add: np_argsort_def)

lemma sorted_np_argsort: "sorted (map (\<lambda>i. xs ! i) (np_argsort xs))"
  by (simp add: np_argsort_def)

lemma index_of_nth: "v \<in> set xs \<Longrightarrow> index_of v xs < length xs \<and> xs ! index_of v xs = v"
  by (induction xs) auto

lemma inj_on_index_of: "inj_on (\<lambda>v. index_of v xs) (set xs)"
proof (rule inj_onI)
  fix a b assume "a \<in> set xs" "b \<in> set xs" "index_of a xs = index_of b xs"
  then show "a = b" using index_of_nth [of a xs] index_of_nth [of b xs] by metis
qed

lemma length_unique_fit_transform:
  "length (np_unique (fit_transform ys)) = card (set ys)"
proof -
  have "set (np_unique ys) = set ys" by (simp add: np_unique_def)
  then have inj: "inj_on (\<lambda>v. index_of v (np_unique ys)) (set ys)"
    using inj_on_index_of [of "np_unique ys"] by simp
  have "length (np_unique (fit_transform ys)) = card (set (fit_transform ys))"
    by (simp add: np_unique_def length_remdups_card_conv)
  also have "\<dots> = card ((\<lambda>v. index_of v (np_unique ys)) ` set ys)"
    by (simp add: fit_transform_def)
  also have "\<dots> = card (set ys)" using inj by (rule card_image)
  finally show ?thesis .
qed

lemma num_movies_card: "num_movies e = card (rated_movieId ` set (ratings_df e))"
  by (simp add: num_movies_def X_movies_def length_unique_fit_transform)

lemma sorted_wrt_top_indices:
  "sorted_wrt (\<lambda>i j. hs ! j \<le> hs ! i) (rev (np_argsort hs))"
  using sorted_np_argsort [of hs] by (simp add: sorted_map sorted_wrt_rev)

lemma try_body_scores:
  assumes "find_indices (movies_df e) seeds [] = Inr idxs" and "hybrid_scores e idxs = Inr hs"
  shows "try_body e seeds N =
     (if length hs \<le> length (movies_df e)
      then Inr \<lparr>printed = [],
                returned = take (nat N) (map (\<lambda>i. title (movies_df e ! i))
                   (filter (\<lambda>i. title (movies_df e ! i) \<notin> set seeds) (rev (np_argsort hs))))\<rparr>
      else Inl KeyError)"
proof (cases "length hs \<le> length (movies_df e)")
  case True
  then have "\<forall>i \<in> set (rev (np_argsort hs)). i < length (movies_df e)"
    by (auto simp: set_np_argsort)
  from collect_eq [OF this, of seeds N "[]"] assms True show ?thesis
    by (simp add: try_body_def)
next
  case False
  then have "length (movies_df e) \<in> set (rev (np_argsort hs))" by (simp add: set_np_argsort)
  then have "\<exists>i \<in> set (rev (np_argsort hs)). \<not> i < length (movies_df e)" by blast
  from collect_KeyError [OF this, of seeds N "[]"] assms False show ?thesis
    by (simp add: try_body_def)
qed

lemma returned_cases:
  "returned (get_hybrid_recommendations e seeds N) = [] \<or>
   (\<exists>idxs hs. find_indices (movies_df e) seeds [] = Inr idxs \<and> hybrid_scores e idxs = Inr hs \<and>
      length hs \<le> length (movies_df e) \<and>
      returned (get_hybrid_recommendations e seeds N) =
        take (nat N) (map (\<lambda>i. title (movies_df e ! i))
           (filter (\<lambda>i. title (movies_df e ! i) \<notin> set seeds) (rev (np_argsort hs)))))"
proof (cases "find_indices (movies_df e) seeds []")
  case (Inl m)
  then show ?thesis by (simp add: get_hybrid_recommendations_def try_body_def)
next
  case (Inr idxs)
  show ?thesis
  proof (cases "hybrid_scores e idxs")
    case (Inl err)
    with Inr show ?thesis by (simp add: get_hybrid_recommendations_def try_body_def)
  next
    case hs: (Inr hs)
    from try_body_scores [OF Inr hs, of N] Inr hs show ?thesis
      by (cases "length hs \<le> length (movies_df e)") (simp_all add: get_hybrid_recommendations_def)
  qed
qed


lemma genres_of_present:
  "t \<in> title ` set df \<Longrightarrow> \<exists>g. genres_of df t = Inr g \<and> genre_tags df t = set (split_str CHR ''|'' g)"
proof -
  assume "t \<in> title ` set df"
  then have "title_index df t \<noteq> []" by (simp add: title_index_Nil)
  then obtain i rest where "title_index df t = i # rest" by (cases "title_index df t") auto
  then show ?thesis by (simp add: genres_of_def genre_tags_def)
qed

lemma genres_of_absent: "t \<notin> title ` set df \<Longrightarrow> genres_of df t = Inl IndexError"
  by (simp add: genres_of_def title_index_Nil [symmetric])

lemma input_genres_loop_present:
  "\<forall>t \<in> set seeds. t \<in> title ` set df \<Longrightarrow>
   input_genres_loop df seeds S = Inr (S \<union> (\<Union>s \<in> set seeds. genre_tags df s))"
proof (induction seeds arbitrary: S)
  case Nil
  then show ?case by simp
next
  case (Cons s seeds)
  then have "s \<in> title ` set df" and rest: "\<forall>t \<in> set seeds. t \<in> title ` set df" by simp_all
  from genres_of_present [OF this(1)] obtain g where
    g: "genres_of df s = Inr g" "genre_tags df s = set (split_str CHR ''|'' g)" by blast
  show ?case using g Cons.IH [OF rest] by (simp add: Un_assoc)
qed

lemma input_genres_loop_absent:
  "\<exists>t \<in> set seeds. t \<notin> title ` set df \<Longrightarrow> input_genres_loop df seeds S = Inl IndexError"
proof (induction seeds arbitrary: S)
  case Nil
  then show ?case by simp
next
  case (Cons s seeds)
  show ?case
  proof (cases "s \<in> title ` set df")
    case True
    from genres_of_present [OF True] obtain g where g: "genres_of df s = Inr g" by blast
    from True Cons.prems have "\<exists>t \<in> set seeds. t \<notin> title ` set df" by auto
    from Cons.IH [OF this] g show ?thesis by simp
  next
    case False
    then show ?thesis by (simp add: genres_of_absent)
  qed
qed

lemma genre_matches_sum_eq:
  "\<forall>r \<in> set recs. r \<in> title ` set df \<Longrightarrow>
   genre_matches_sum df S recs = Inr (length (filter (\<lambda>r. genre_tags df r \<inter> S \<noteq> {}) recs))"
proof (induction recs)
  case Nil
  then show ?case by simp
next
  case (Cons r recs)
  then have "r \<in> title ` set df" and rest: "\<forall>r \<in> set recs. r \<in> title ` set df" by simp_all
  from genres_of_present [OF this(1)] obtain g where
    g: "genres_of df r = Inr g" "genre_tags df r = set (split_str CHR ''|'' g)" by blast
  have "(\<exists>genre \<in> set (split_str CHR ''|'' g). genre \<in> S) \<longleftrightarrow> genre_tags df r \<inter> S \<noteq> {}"
    using g(2) by auto
  then show ?case using g(1) Cons.IH [OF rest] by simp
qed

lemma returned_in_table:
  "set (returned (get_hybrid_recommendations e seeds N)) \<subseteq> title ` set (movies_df e)"
proof -
  from returned_cases [of e seeds N] show ?thesis
  proof
    assume "returned (get_hybrid_recommendations e seeds N) = []"
    then show ?thesis by simp
  next
    assume "\<exists>idxs hs. find_indices (movies_df e) seeds [] = Inr idxs \<and> hybrid_scores e idxs = Inr hs \<and>
      length hs \<le> length (movies_df e) \<and>
      returned (get_hybrid_recommendations e seeds N) =
        take (nat N) (map (\<lambda>i. title (movies_df e ! i))
           (filter (\<lambda>i. title (movies_df e ! i) \<notin> set seeds) (rev (np_argsort hs))))"
    then obtain hs where len: "length hs \<le> length (movies_df e)"
      and r: "returned (get_hybrid_recommendations e seeds N) =
        take (nat N) (map (\<lambda>i. title (movies_df e ! i))
           (filter (\<lambda>i. title (movies_df e ! i) \<notin> set seeds) (rev (np_argsort hs))))" by blast
    show ?thesis
    proof
      fix t assume "t \<in> set (returned (get_hybrid_recommendations e seeds N))"
      then have "t \<in> set (map (\<lambda>i. title (movies_df e ! i))
           (filter (\<lambda>i. title (movies_df e ! i) \<notin> set seeds) (rev (np_argsort hs))))"
        unfolding r by (rule in_set_takeD)
      then obtain i where "i < length hs" "t = title (movies_df e ! i)"
        by (auto simp: set_np_argsort)
      with len show "t \<in> title ` set (movies_df e)" by simp
    qed
  qed
qed

lemma try_body_absent:
  assumes "\<exists>t \<in> set seeds. t \<notin> title ` set (movies_df e)"
  shows "\<exists>m \<in> set seeds. m \<notin> title ` set (movies_df e) \<and>
     try_body e seeds N = Inr \<lparr>printed = [Warning_not_found m], returned = []\<rparr>"
proof -
  from find_indices_absent [OF assms, of "[]"] obtain m where
    m: "m \<in> set seeds" "m \<notin> title ` set (movies_df e)"
       "find_indices (movies_df e) seeds [] = Inl m" by blast
  from m(3) have "try_body e seeds N = Inr \<lparr>printed = [Warning_not_found m], returned = []\<rparr>"
    by (simp add: try_body_def)
  with m(1,2) show ?thesis by blast
qed

lemma hybrid_scores_nth:
  assumes hs: "hybrid_scores e idxs = Inr hs"
    and n: "num_movies e \<le> length (movies_df e)" and i: "i < num_movies e"
  shows "length hs = num_movies e \<and>
     hs ! i = 0.5 * (mean_rows e idxs ! i) + 0.5 * cf_model e (hd (X_users e)) i"
proof -
  let ?a = "map (\<lambda>x. 0.5 * x) (take (num_movies e) (mean_rows e idxs))"
  let ?b = "map (\<lambda>x. 0.5 * x) (map (cf_model e (hd (X_users e))) [0..<num_movies e])"
  from hybrid_scores_Inr [OF hs] have add: "np_add ?a ?b = Inr hs" by simp
  have la: "length ?a = num_movies e" using n by (simp add: mean_rows_def)
  have lb: "length ?b = num_movies e" by simp
  from add la lb have eq: "hs = map2 (+) ?a ?b" by (simp add: np_add_def)
  have "length hs = num_movies e" unfolding eq using la lb by simp
  moreover have "hs ! i = ?a ! i + ?b ! i" unfolding eq using la lb i by simp
  moreover have "?a ! i = 0.5 * (mean_rows e idxs ! i)" using i n by (simp add: mean_rows_def)
  moreover have "?b ! i = 0.5 * cf_model e (hd (X_users e)) i" using i by simp
  ultimately show ?thesis by simp
qed

lemma X_users_Nil: "X_users e = [] \<longleftrightarrow> ratings_df e = []"
  by (simp add: X_users_def fit_transform_def)

lemma length_mean_rows: "length (mean_rows e idxs) = length (movies_df e)"
  by (simp add: mean_rows_def)

lemma np_add_length_eq:
  "np_add a b = Inr c \<Longrightarrow>
   length c = (if length a = length b \<or> length a = 1 then length b else length a)"
  by (auto simp: np_add_def split: if_splits)

lemma hybrid_scores_Inl_iff:
  "(\<exists>err. hybrid_scores e idxs = Inl err) \<longleftrightarrow>
   ratings_df e = [] \<or> idxs = [] \<or>
   (length (movies_df e) < num_movies e \<and> length (movies_df e) \<noteq> 1 \<and> num_movies e \<noteq> 1)"
proof (cases "ratings_df e = [] \<or> idxs = []")
  case True
  then show ?thesis by (auto simp: hybrid_scores_def X_users_Nil)
next
  case False
  let ?a = "map (\<lambda>x. 0.5 * x) (take (num_movies e) (mean_rows e idxs))"
  let ?b = "map (\<lambda>x. 0.5 * x) (map (cf_model e (hd (X_users e))) [0..<num_movies e])"
  from False have nz: "X_users e \<noteq> []" "idxs \<noteq> []" by (simp_all add: X_users_Nil)
  have eq: "hybrid_scores e idxs = np_add ?a ?b"
    by (simp only: hybrid_scores_def Let_def nz if_False length_upt diff_zero)
  have la: "length ?a = min (length (movies_df e)) (num_movies e)"
    by (simp add: length_mean_rows)
  have lb: "length ?b = num_movies e" by simp
  have pos: "0 < num_movies e"
  proof -
    from False obtain r rs where "ratings_df e = r # rs" by (cases "ratings_df e") auto
    then have "rated_movieId ` set (ratings_df e) \<noteq> {}" by simp
    then show ?thesis by (simp add: num_movies_card card_gt_0_iff)
  qed
  have "(\<exists>err. np_add ?a ?b = Inl err) \<longleftrightarrow>
        (length ?a \<noteq> length ?b \<and> length ?a \<noteq> 1 \<and> length ?b \<noteq> 1)"
    unfolding np_add_def by (simp only: if_distrib) auto
  also have "\<dots> \<longleftrightarrow> (length (movies_df e) < num_movies e \<and> length (movies_df e) \<noteq> 1 \<and>
       num_movies e \<noteq> 1)"
    unfolding la lb using pos by (auto simp: min_def)
  finally show ?thesis using False eq by simp
qed

text \<open>
  When an exception leaves the body of the \<open>try\<close>: every seed title resolves, and there is
  no rating, no seed, or the movie table has fewer rows than there are rated movies.
\<close>

lemma try_body_raises_iff:
  "(\<exists>err. try_body e seeds N = Inl err) \<longleftrightarrow>
   (\<forall>t \<in> set seeds. t \<in> title ` set (movies_df e)) \<and>
   (ratings_df e = [] \<or> seeds = [] \<or> length (movies_df e) < num_movies e)"
proof (cases "\<forall>t \<in> set seeds. t \<in> title ` set (movies_df e)")
  case False
  then have "\<exists>t \<in> set seeds. t \<notin> title ` set (movies_df e)" by blast
  from try_body_absent [OF this, of N] False show ?thesis by auto
next
  case True
  from find_indices_present [OF True, of "[]"] obtain idxs where
    fi: "find_indices (movies_df e) seeds [] = Inr idxs" and li: "length idxs = length seeds"
    by auto
  from li have nil: "idxs = [] \<longleftrightarrow> seeds = []" by auto
  show ?thesis
  proof (cases "hybrid_scores e idxs")
    case (Inl err)
    then have "\<exists>err. hybrid_scores e idxs = Inl err" by blast
    then have "ratings_df e = [] \<or> seeds = [] \<or> length (movies_df e) < num_movies e"
      unfolding hybrid_scores_Inl_iff nil by blast
    moreover from fi Inl have "try_body e seeds N = Inl err" by (simp add: try_body_def)
    ultimately show ?thesis using True by blast
  next
    case (Inr hs)
    then have "\<not> (\<exists>err. hybrid_scores e idxs = Inl err)" by simp
    then have ok: "ratings_df e \<noteq> []" "seeds \<noteq> []"
      and short: "length (movies_df e) < num_movies e \<longrightarrow>
         length (movies_df e) = 1 \<or> num_movies e = 1"
      unfolding hybrid_scores_Inl_iff nil by auto
    from ok(2) obtain t where "t \<in> set seeds" by (cases seeds) auto
    with True have "t \<in> title ` set (movies_df e)" by blast
    then have rows: "0 < length (movies_df e)" by auto
    let ?a = "map (\<lambda>x. 0.5 * x) (take (num_movies e) (mean_rows e idxs))"
    let ?b = "map (\<lambda>x. 0.5 * x) (map (cf_model e (hd (X_users e))) [0..<num_movies e])"
    from hybrid_scores_Inr [OF Inr] have add: "np_add ?a ?b = Inr hs" by simp
    have la: "length ?a = min (length (movies_df e)) (num_movies e)"
      by (simp add: length_mean_rows)
    have lb: "length ?b = num_movies e" by simp
    have len: "length hs = num_movies e"
      unfolding np_add_length_eq [OF add] la lb using short rows by (auto simp: min_def)
    from try_body_scores [OF fi Inr, of N] len
    have "(\<exists>err. try_body e seeds N = Inl err) \<longleftrightarrow> length (movies_df e) < num_movies e"
      by auto
    with True ok show ?thesis by blast
  qed
qed
















section \<open>Properties of the scorer, the ranker and the evaluator\<close>

text \<open>
  C1, on the table \<open>env_unrated\<close> with the seed \<open>A\<close>. The candidate at row 2 is the movie
  \<open>C\<close>, whose identifier 3 the encoder maps to 1; its content score is 0 and the network
  predicts 2 for it, so the score built from this movie's own two numbers is 1. The code
  gives row 2 the score \<open>3 / 2\<close>: half of the prediction for encoded movie 2, which is the
  movie \<open>D\<close>.
\<close>

theorem hybrid_score_reads_other_movie:
  "find_indices (movies_df env_unrated) [''A''] [] = Inr [0] \<and>
   hybrid_scores env_unrated [0] = Inr [1, 1, 3 / 2] \<and>
   title (movies_df env_unrated ! 2) = ''C'' \<and>
   movieId (movies_df env_unrated ! 2) = 3 \<and>
   index_of 3 (np_unique (map rated_movieId (ratings_df env_unrated))) = 1 \<and>
   0.5 * (mean_rows env_unrated [0] ! 2) + 0.5 * cf_model env_unrated (hd (X_users env_unrated)) 1 = 1"
  by (simp add: env_eval env_unrated_def)

text \<open>
  C2, as the code has it. For every seed list whose titles all resolve, the titles the
  ranker returns are those of distinct candidate rows in descending order of hybrid
  score. Nothing is promised about the order of candidates with equal scores.
\<close>

theorem ranker_orders_by_score_descending:
  assumes "find_indices (movies_df e) seeds [] = Inr idxs"
    and "hybrid_scores e idxs = Inr hs"
  shows "\<exists>js. returned (get_hybrid_recommendations e seeds N) = map (\<lambda>i. title (movies_df e ! i)) js \<and>
     distinct js \<and> set js \<subseteq> {..<length hs} \<and> sorted_wrt (\<lambda>i j. hs ! j \<le> hs ! i) js"
proof (cases "length hs \<le> length (movies_df e)")
  case True
  let ?js = "take (nat N) (filter (\<lambda>i. title (movies_df e ! i) \<notin> set seeds) (rev (np_argsort hs)))"
  from try_body_scores [OF assms, of N] True
  have "returned (get_hybrid_recommendations e seeds N) = map (\<lambda>i. title (movies_df e ! i)) ?js"
    by (simp add: get_hybrid_recommendations_def take_map)
  moreover have "distinct ?js" by (simp add: distinct_np_argsort)
  moreover have "set ?js \<subseteq> {..<length hs}"
    using set_take_subset [of "nat N" "filter (\<lambda>i. title (movies_df e ! i) \<notin> set seeds) (rev (np_argsort hs))"]
    by (auto simp: set_np_argsort)
  moreover have "sorted_wrt (\<lambda>i j. hs ! j \<le> hs ! i) ?js"
    by (intro sorted_wrt_take sorted_wrt_filter sorted_wrt_top_indices)
  ultimately show ?thesis by blast
next
  case False
  from try_body_scores [OF assms, of N] False
  have "returned (get_hybrid_recommendations e seeds N) = []"
    by (simp add: get_hybrid_recommendations_def)
  then show ?thesis by simp
qed

theorem ranker_orders_by_score_descending_witness:
  "find_indices (movies_df env_unrated) [''A''] [] = Inr [0] \<and>
   hybrid_scores env_unrated [0] = Inr [1, 1, 3 / 2] \<and>
   returned (get_hybrid_recommendations env_unrated [''A''] 5) = [''C'', ''B''] \<and>
   (\<exists>js. returned (get_hybrid_recommendations env_unrated [''A''] 5) =
           map (\<lambda>i. title (movies_df env_unrated ! i)) js \<and>
         distinct js \<and> set js \<subseteq> {..<length [1, 1, 3 / 2 :: real]} \<and>
         sorted_wrt (\<lambda>i j. [1, 1, 3 / 2 :: real] ! j \<le> [1, 1, 3 / 2] ! i) js)"
proof -
  have a: "find_indices (movies_df env_unrated) [''A''] [] = Inr [0]"
    by (simp add: env_eval env_unrated_def)
  have b: "hybrid_scores env_unrated [0] = Inr [1, 1, 3 / 2]"
    by (simp add: env_eval env_unrated_def)
  have c: "returned (get_hybrid_recommendations env_unrated [''A''] 5) = [''C'', ''B'']"
    by (simp add: env_eval env_unrated_def)
  note d = ranker_orders_by_score_descending [OF a b, of 5]
  show ?thesis by (intro conjI a b c d)
qed

text \<open>
  On the table \<open>env_ties\<close> the rows \<open>A\<close> and \<open>B\<close> have the same score, and the ranker
  returns \<open>B\<close> before \<open>A\<close>: the reversed argsort turns equal scores around.
\<close>

theorem ranker_ties_reverse_table_order_counterexample:
  "find_indices (movies_df env_ties) [''S''] [] = Inr [0] \<and>
   hybrid_scores env_ties [0] = Inr [2, 7 / 4, 7 / 4] \<and>
   map title (movies_df env_ties) = [''S'', ''A'', ''B''] \<and>
   returned (get_hybrid_recommendations env_ties [''S''] 5) = [''B'', ''A'']"
  by (simp add: env_eval env_ties_def)

text \<open>
  C3. For every seed list with a title that is not in the movie table, the body of the
  \<open>try\<close> ends without an exception, and the ranker prints the warning for such a title and
  returns the empty list.
\<close>

theorem ranker_absent_title_returns_empty:
  assumes "\<exists>t \<in> set seeds. t \<notin> title ` set (movies_df e)"
  shows "\<exists>m \<in> set seeds. m \<notin> title ` set (movies_df e) \<and>
     try_body e seeds N = Inr \<lparr>printed = [Warning_not_found m], returned = []\<rparr> \<and>
     get_hybrid_recommendations e seeds N = \<lparr>printed = [Warning_not_found m], returned = []\<rparr>"
proof -
  from try_body_absent [OF assms, of N] obtain m where
    m: "m \<in> set seeds" "m \<notin> title ` set (movies_df e)"
       "try_body e seeds N = Inr \<lparr>printed = [Warning_not_found m], returned = []\<rparr>" by blast
  from m(3) have "get_hybrid_recommendations e seeds N = \<lparr>printed = [Warning_not_found m], returned = []\<rparr>"
    by (simp add: get_hybrid_recommendations_def)
  with m show ?thesis by blast
qed

theorem ranker_absent_title_returns_empty_witness:
  "''Z'' \<in> set [''A'', ''Z''] \<and> ''Z'' \<notin> title ` set (movies_df env_unrated) \<and>
   get_hybrid_recommendations env_unrated [''A'', ''Z''] 5 =
     \<lparr>printed = [Warning_not_found ''Z''], returned = []\<rparr>"
proof -
  have h: "\<exists>t \<in> set [''A'', ''Z'']. t \<notin> title ` set (movies_df env_unrated)"
    by (simp add: env_unrated_def)
  from ranker_absent_title_returns_empty [OF h, of 5] obtain m where
    m: "m \<in> set [''A'', ''Z'']" "m \<notin> title ` set (movies_df env_unrated)"
       "get_hybrid_recommendations env_unrated [''A'', ''Z''] 5 =
          \<lparr>printed = [Warning_not_found m], returned = []\<rparr>" by blast
  from m(1,2) have "m = ''Z''" by (auto simp: env_unrated_def)
  with m show ?thesis by simp
qed

text \<open>
  C4. For every seed list and every limit \<open>N\<close>, the ranker returns at most \<open>N\<close> titles and
  none of them is a seed title. The limit is a count; the function takes it as an integer.
\<close>

theorem ranker_excludes_seeds_and_respects_limit:
  "length (returned (get_hybrid_recommendations e seeds (int N))) \<le> N \<and>
   set (returned (get_hybrid_recommendations e seeds (int N))) \<inter> set seeds = {}"
proof -
  from returned_cases [of e seeds "int N"] show ?thesis
  proof
    assume "returned (get_hybrid_recommendations e seeds (int N)) = []"
    then show ?thesis by simp
  next
    assume "\<exists>idxs hs. find_indices (movies_df e) seeds [] = Inr idxs \<and> hybrid_scores e idxs = Inr hs \<and>
      length hs \<le> length (movies_df e) \<and>
      returned (get_hybrid_recommendations e seeds (int N)) =
        take (nat (int N)) (map (\<lambda>i. title (movies_df e ! i))
           (filter (\<lambda>i. title (movies_df e ! i) \<notin> set seeds) (rev (np_argsort hs))))"
    then obtain hs where
      r: "returned (get_hybrid_recommendations e seeds (int N)) =
        take N (map (\<lambda>i. title (movies_df e ! i))
           (filter (\<lambda>i. title (movies_df e ! i) \<notin> set seeds) (rev (np_argsort hs))))" by auto
    have "length (returned (get_hybrid_recommendations e seeds (int N))) \<le> N"
      unfolding r by simp
    moreover have "set (returned (get_hybrid_recommendations e seeds (int N))) \<inter> set seeds = {}"
    proof -
      have "\<And>t. t \<in> set (returned (get_hybrid_recommendations e seeds (int N))) \<Longrightarrow> t \<notin> set seeds"
      proof -
        fix t assume "t \<in> set (returned (get_hybrid_recommendations e seeds (int N)))"
        then have "t \<in> set (map (\<lambda>i. title (movies_df e ! i))
           (filter (\<lambda>i. title (movies_df e ! i) \<notin> set seeds) (rev (np_argsort hs))))"
          unfolding r by (rule in_set_takeD)
        then show "t \<notin> set seeds" by auto
      qed
      then show ?thesis by blast
    qed
    ultimately show ?thesis by simp
  qed
qed

theorem ranker_excludes_seeds_and_respects_limit_witness:
  "returned (get_hybrid_recommendations env_unrated [''A''] (int 1)) = [''C''] \<and>
   length (returned (get_hybrid_recommendations env_unrated [''A''] (int 1))) \<le> 1 \<and>
   set (returned (get_hybrid_recommendations env_unrated [''A''] (int 1))) \<inter> set [''A''] = {}"
proof -
  have "returned (get_hybrid_recommendations env_unrated [''A''] (int 1)) = [''C'']"
    by (simp add: env_eval env_unrated_def)
  with ranker_excludes_seeds_and_respects_limit [of env_unrated "[''A'']" 1] show ?thesis
    by (intro conjI) simp_all
qed

text \<open>
  C6, as the code has it. For every seed list whose titles all occur in the movie table,
  the evaluator returns its metrics; the rate is 0 when the recommendation list is empty,
  and otherwise it is 100 times the fraction of the recommended titles that share a genre
  tag with the union of the seeds' genre tags, a value between 0 and 100.
\<close>

theorem evaluator_genre_match_rate:
  assumes "\<forall>t \<in> set seeds. t \<in> title ` set (movies_df e)"
  shows "\<exists>m. snd (evaluate_recommendations e seeds N) = Inr m \<and>
     recommendations m = returned (get_hybrid_recommendations e seeds N) \<and>
     (recommendations m = [] \<longrightarrow> genre_match_rate m = 0) \<and>
     (recommendations m \<noteq> [] \<longrightarrow>
        genre_match_rate m =
          100 * (real (length (filter (shares_genre (movies_df e) seeds) (recommendations m)))
                 / real (length (recommendations m)))) \<and>
     0 \<le> genre_match_rate m \<and> genre_match_rate m \<le> 100"
proof -
  let ?df = "movies_df e"
  let ?recs = "returned (get_hybrid_recommendations e seeds N)"
  let ?S = "\<Union>s \<in> set seeds. genre_tags ?df s"
  let ?k = "length (filter (shares_genre ?df seeds) ?recs)"
  have a: "input_genres_loop ?df seeds {} = Inr ?S"
    using input_genres_loop_present [OF assms, of "{}"] by simp
  have "\<forall>r \<in> set ?recs. r \<in> title ` set ?df" using returned_in_table [of e seeds N] by blast
  from genre_matches_sum_eq [OF this, of ?S]
  have b: "genre_matches_sum ?df ?S ?recs = Inr ?k" by (simp add: shares_genre_def [abs_def])
  have ev: "snd (evaluate_recommendations e seeds N) =
      Inr \<lparr>recommendations = ?recs,
           genre_match_rate = (if ?recs \<noteq> [] then (real ?k / real (length ?recs)) * 100 else 0),
           total_recommendations = length ?recs\<rparr>"
    by (simp add: evaluate_recommendations_def Let_def a b)
  have le: "?k \<le> length ?recs" by (rule length_filter_le)
  define q where "q = real ?k / real (length ?recs)"
  have "q \<le> 1" using le by (simp add: q_def divide_le_eq_1)
  moreover have "0 \<le> q" by (simp add: q_def)
  ultimately have bounds: "0 \<le> q * 100 \<and> q * 100 \<le> 100" by simp
  define m where "m = \<lparr>recommendations = ?recs,
           genre_match_rate = (if ?recs \<noteq> [] then q * 100 else 0),
           total_recommendations = length ?recs\<rparr>"
  have c1: "snd (evaluate_recommendations e seeds N) = Inr m"
    unfolding m_def q_def by (rule ev)
  have c2: "recommendations m = ?recs" by (simp add: m_def)
  have c3: "recommendations m = [] \<longrightarrow> genre_match_rate m = 0" by (simp add: m_def)
  have c4: "recommendations m \<noteq> [] \<longrightarrow>
        genre_match_rate m =
          100 * (real (length (filter (shares_genre (movies_df e) seeds) (recommendations m)))
                 / real (length (recommendations m)))"
    by (simp add: m_def q_def)
  have c5: "0 \<le> genre_match_rate m" using bounds by (simp add: m_def)
  have c6: "genre_match_rate m \<le> 100" using bounds by (simp add: m_def)
  show ?thesis
    by (rule exI [of _ m]) (intro conjI c1 c2 c3 c4 c5 c6)
qed

theorem evaluator_genre_match_rate_witness:
  "''A'' \<in> title ` set (movies_df env_unrated) \<and>
   (\<exists>m. snd (evaluate_recommendations env_unrated [''A''] 5) = Inr m \<and>
        recommendations m = [''C'', ''B''] \<and> genre_match_rate m = 50)"
proof -
  have h: "\<forall>t \<in> set [''A'']. t \<in> title ` set (movies_df env_unrated)"
    by (simp add: env_unrated_def)
  have r: "returned (get_hybrid_recommendations env_unrated [''A''] 5) = [''C'', ''B'']"
    by (simp add: env_eval env_unrated_def)
  have k: "filter (shares_genre (movies_df env_unrated) [''A'']) [''C'', ''B''] = [''C'']"
    by (simp add: shares_genre_def genre_tags_def title_index_def env_unrated_def upt_rec)
  from evaluator_genre_match_rate [OF h, of 5] obtain m where
    m: "snd (evaluate_recommendations env_unrated [''A''] 5) = Inr m"
       "recommendations m = returned (get_hybrid_recommendations env_unrated [''A''] 5)"
       "recommendations m \<noteq> [] \<longrightarrow>
        genre_match_rate m =
          100 * (real (length (filter (shares_genre (movies_df env_unrated) [''A'']) (recommendations m)))
                 / real (length (recommendations m)))"
    by blast
  from m(2) r have rm: "recommendations m = [''C'', ''B'']" by simp
  with m(3) k have "genre_match_rate m = 50" by simp
  with m(1) rm h show ?thesis by auto
qed

text \<open>
  With a seed title that is not in the table the recommendation list is empty, and the
  evaluator returns no rate: the seed-genre lookup raises.
\<close>

theorem evaluator_raises_on_absent_seed_counterexample:
  "returned (get_hybrid_recommendations env_unrated [''Z''] 5) = [] \<and>
   snd (evaluate_recommendations env_unrated [''Z''] 5) = Inl IndexError"
  by (simp add: evaluate_recommendations_def genres_of_def env_eval env_unrated_def)




text \<open>
  C8. Whenever an exception leaves the body of the \<open>try\<close>, the ranker prints the message
  for that exception and returns the empty list. The ranker is a total function to
  outcomes: no exception reaches its caller.
\<close>

theorem ranker_catches_failures:
  "try_body e seeds N = Inl err \<Longrightarrow>
   get_hybrid_recommendations e seeds N = \<lparr>printed = [An_error_occurred err], returned = []\<rparr>"
  by (simp add: get_hybrid_recommendations_def)

theorem ranker_catches_failures_witness:
  "try_body env_unrated [] 5 = Inl IndexError \<and>
   get_hybrid_recommendations env_unrated [] 5 =
     \<lparr>printed = [An_error_occurred IndexError], returned = []\<rparr>"
proof -
  have h: "try_body env_unrated [] 5 = Inl IndexError"
    by (simp add: env_eval env_unrated_def)
  from ranker_catches_failures [OF h] h show ?thesis by simp
qed

text \<open>
  C9. Every title the ranker returns is the title of a movie-table row whose index is
  below the number of distinct movies in the rating set.
\<close>

theorem ranker_rows_below_num_movies:
  "\<forall>t \<in> set (returned (get_hybrid_recommendations e seeds N)).
     \<exists>i. i < card (rated_movieId ` set (ratings_df e)) \<and> i < length (movies_df e) \<and>
         title (movies_df e ! i) = t"
proof
  fix t assume t: "t \<in> set (returned (get_hybrid_recommendations e seeds N))"
  then have "returned (get_hybrid_recommendations e seeds N) \<noteq> []" by auto
  with returned_cases [of e seeds N] obtain idxs hs where
    hs: "hybrid_scores e idxs = Inr hs" and len: "length hs \<le> length (movies_df e)"
    and r: "returned (get_hybrid_recommendations e seeds N) =
        take (nat N) (map (\<lambda>i. title (movies_df e ! i))
           (filter (\<lambda>i. title (movies_df e ! i) \<notin> set seeds) (rev (np_argsort hs))))" by blast
  from t have "t \<in> set (map (\<lambda>i. title (movies_df e ! i))
           (filter (\<lambda>i. title (movies_df e ! i) \<notin> set seeds) (rev (np_argsort hs))))"
    unfolding r by (rule in_set_takeD)
  then obtain i where i: "i < length hs" "title (movies_df e ! i) = t"
    by (auto simp: set_np_argsort)
  from hybrid_scores_length [OF hs] i(1) have "i < num_movies e" by simp
  then have "i < card (rated_movieId ` set (ratings_df e))" by (simp add: num_movies_card)
  with i len show "\<exists>i. i < card (rated_movieId ` set (ratings_df e)) \<and> i < length (movies_df e) \<and>
         title (movies_df e ! i) = t" by auto
qed

theorem ranker_rows_below_num_movies_witness:
  "returned (get_hybrid_recommendations env_unrated [''A''] 5) = [''C'', ''B''] \<and>
   card (rated_movieId ` set (ratings_df env_unrated)) = 3 \<and>
   length (movies_df env_unrated) = 4 \<and>
   (\<exists>i. i < card (rated_movieId ` set (ratings_df env_unrated)) \<and> i < length (movies_df env_unrated) \<and>
        title (movies_df env_unrated ! i) = ''C'')"
proof -
  have r: "returned (get_hybrid_recommendations env_unrated [''A''] 5) = [''C'', ''B'']"
    by (simp add: env_eval env_unrated_def)
  have c: "card (rated_movieId ` set (ratings_df env_unrated)) = 3"
    by (simp add: env_unrated_def)
  have l: "length (movies_df env_unrated) = 4" by (simp add: env_unrated_def)
  have "''C'' \<in> set (returned (get_hybrid_recommendations env_unrated [''A''] 5))"
    by (simp add: r)
  with ranker_rows_below_num_movies [of env_unrated "[''A'']" 5]
  have "\<exists>i. i < card (rated_movieId ` set (ratings_df env_unrated)) \<and> i < length (movies_df env_unrated) \<and>
        title (movies_df env_unrated ! i) = ''C''" by blast
  with r c l show ?thesis by (intro conjI)
qed

text \<open>
  C10. For every seed list with a title that is not in the movie table, the evaluator
  ends with the \<open>IndexError\<close> of the seed-genre lookup, which nothing catches, while the
  ranker it called returned the empty list after its warning.
\<close>

theorem evaluator_raises_on_absent_seed:
  assumes "\<exists>t \<in> set seeds. t \<notin> title ` set (movies_df e)"
  shows "snd (evaluate_recommendations e seeds N) = Inl IndexError \<and>
     returned (get_hybrid_recommendations e seeds N) = [] \<and>
     (\<exists>m. fst (evaluate_recommendations e seeds N) = [Warning_not_found m])"
proof -
  from try_body_absent [OF assms, of N] obtain m where
    "try_body e seeds N = Inr \<lparr>printed = [Warning_not_found m], returned = []\<rparr>" by blast
  then have g: "get_hybrid_recommendations e seeds N = \<lparr>printed = [Warning_not_found m], returned = []\<rparr>"
    by (simp add: get_hybrid_recommendations_def)
  have "input_genres_loop (movies_df e) seeds {} = Inl IndexError"
    using assms by (rule input_genres_loop_absent)
  then have "snd (evaluate_recommendations e seeds N) = Inl IndexError"
    by (simp add: evaluate_recommendations_def Let_def)
  moreover have "fst (evaluate_recommendations e seeds N) = [Warning_not_found m]"
    by (simp add: evaluate_recommendations_def Let_def g)
  ultimately show ?thesis using g by simp
qed

theorem evaluator_raises_on_absent_seed_witness:
  "''Nope'' \<in> set [''S'', ''Nope''] \<and> ''Nope'' \<notin> title ` set (movies_df env_ties) \<and>
   snd (evaluate_recommendations env_ties [''S'', ''Nope''] 5) = Inl IndexError \<and>
   returned (get_hybrid_recommendations env_ties [''S'', ''Nope''] 5) = []"
proof -
  have h: "\<exists>t \<in> set [''S'', ''Nope'']. t \<notin> title ` set (movies_df env_ties)"
    by (simp add: env_ties_def)
  have "''Nope'' \<notin> title ` set (movies_df env_ties)" by (simp add: env_ties_def)
  with evaluator_raises_on_absent_seed [OF h, of 5] show ?thesis by simp
qed

end
